theory Spec2Isabelle
  imports Complex_Main
begin

section \<open>Retry delay (RetryImage.tsx, \<open>calculateDelay\<close>)\<close>

text \<open>
  JavaScript numbers are modelled by exact arithmetic: delays are \<^typ>\<open>real\<close>, attempt
  counters are \<^typ>\<open>int\<close>.  \<open>Math.pow(2, attempt - 1)\<close> is the integer power \<open>2 powi (attempt - 1)\<close>,
  which is \<open>1/2\<close> at attempt \<open>0\<close> as in the source.  Rounding and overflow of IEEE doubles
  are outside the model.
\<close>

definition calculateDelay :: "int \<Rightarrow> real \<Rightarrow> bool \<Rightarrow> real \<Rightarrow> real" where
  "calculateDelay attempt baseDelay exponential maxDelay =
     (if \<not> exponential then baseDelay
      else let delay = baseDelay * (2 powi (attempt - 1))
           in min delay maxDelay)"

text \<open>
  \<open>calculateDelay\<close> called with configured values.  An \<open>undefined\<close> (or false) flag returns
  \<open>baseDelay\<close> as it is; with the flag set, an \<open>undefined\<close> operand makes the product or
  \<open>Math.min\<close> \<open>NaN\<close>.  \<open>None\<close> is a result that is not a number.
\<close>

definition calculateDelayOf :: "int \<Rightarrow> real option \<Rightarrow> bool option \<Rightarrow> real option \<Rightarrow> real option" where
  "calculateDelayOf attempt baseDelay exponential maxDelay =
     (if exponential \<noteq> Some True then baseDelay
      else case (baseDelay, maxDelay) of
             (Some b, Some m) \<Rightarrow> Some (calculateDelay attempt b True m)
           | _ \<Rightarrow> None)"

section \<open>Fallback escalation (NextImageFallback.tsx)\<close>

subsection \<open>Data\<close>

datatype AlternativeFallbackType = gradient | waves | mono

text \<open>
  \<open>ImageProps['src']\<close> is a string or a static-import object.  Objects are always truthy and
  \<open>!==\<close> compares them by identity, which the number stands for; a string is falsy exactly
  when it is empty.  An absent optional prop is \<open>None\<close>.
\<close>

datatype image_src = Url string | StaticImport nat

fun truthy_src :: "image_src option \<Rightarrow> bool" where
  "truthy_src None = False"
| "truthy_src (Some (Url u)) = (u \<noteq> [])"
| "truthy_src (Some (StaticImport i)) = True"

text \<open>A \<open>width\<close> or \<open>height\<close> prop: \<open>number | string\<close>.\<close>

datatype dimension = Num real | Str string

text \<open>
  The props the handlers and the render function read.  A callback prop is recorded by
  whether the caller supplied it; the decorative props (colours, message) only reach the
  style generators and are left out.
\<close>

record NextImageFallbackProps =
  fallbackSrc :: "image_src option"
  onFallback :: bool
  onError :: bool
  onLoadingComplete :: bool
  alternativeFallback :: "AlternativeFallbackType option"
  onAlternativeFallback :: bool
  width :: "dimension option"
  height :: "dimension option"

text \<open>The three \<open>useState\<close> cells of one component instance.\<close>

record FallbackState =
  currentSrc :: "image_src option"
  hasTriedFallback :: bool
  showAlternativeFallback :: bool

text \<open>A callback invocation, in the order the handler makes it.\<close>

datatype callback =
    CallOnFallback
  | CallOnAlternativeFallback
  | CallOnError
  | CallOnLoadingComplete real real

text \<open>\<open>if (cb) cb(...)\<close>: the call happens only when the callback was supplied.\<close>

definition invoke :: "bool \<Rightarrow> callback \<Rightarrow> callback list" where
  "invoke supplied c = (if supplied then [c] else [])"

text \<open>\<open>useState(src)\<close> at mount, and the \<open>useEffect\<close> on \<open>[src]\<close> that resets all three cells.\<close>

definition initial :: "image_src \<Rightarrow> FallbackState" where
  "initial src = \<lparr>currentSrc = Some src, hasTriedFallback = False, showAlternativeFallback = False\<rparr>"

definition srcEffect :: "image_src \<Rightarrow> FallbackState \<Rightarrow> FallbackState" where
  "srcEffect src s =
     s\<lparr>currentSrc := Some src, hasTriedFallback := False, showAlternativeFallback := False\<rparr>"

subsection \<open>Handlers\<close>

definition handleError :: "NextImageFallbackProps \<Rightarrow> FallbackState \<Rightarrow> FallbackState \<times> callback list" where
  "handleError p s =
     (let (s', calls) =
        (if truthy_src (fallbackSrc p) \<and> \<not> hasTriedFallback s \<and> currentSrc s \<noteq> fallbackSrc p
         then (s\<lparr>currentSrc := fallbackSrc p, hasTriedFallback := True\<rparr>,
               invoke (onFallback p) CallOnFallback)
         else if hasTriedFallback s \<and> alternativeFallback p \<noteq> None
         then (s\<lparr>showAlternativeFallback := True\<rparr>,
               invoke (onAlternativeFallback p) CallOnAlternativeFallback)
         else if \<not> truthy_src (fallbackSrc p) \<and> alternativeFallback p \<noteq> None
         then (s\<lparr>showAlternativeFallback := True\<rparr>,
               invoke (onAlternativeFallback p) CallOnAlternativeFallback)
         else (s, []))
      in (s', calls @ invoke (onError p) CallOnError))"

definition handleLoadingComplete ::
    "NextImageFallbackProps \<Rightarrow> FallbackState \<Rightarrow> real \<Rightarrow> real \<Rightarrow> FallbackState \<times> callback list" where
  "handleLoadingComplete p s naturalWidth naturalHeight =
     (if naturalWidth = 0 \<and> truthy_src (fallbackSrc p) \<and> \<not> hasTriedFallback s
           \<and> currentSrc s \<noteq> fallbackSrc p
      then (s\<lparr>currentSrc := fallbackSrc p, hasTriedFallback := True\<rparr>,
            invoke (onFallback p) CallOnFallback)
      else if naturalWidth = 0 \<and> hasTriedFallback s \<and> alternativeFallback p \<noteq> None
      then (s\<lparr>showAlternativeFallback := True\<rparr>,
            invoke (onAlternativeFallback p) CallOnAlternativeFallback)
      else (s, invoke (onLoadingComplete p) (CallOnLoadingComplete naturalWidth naturalHeight)))"

subsection \<open>Rendering\<close>

text \<open>\<open>width || 100\<close>: a missing prop, the number 0 and the empty string are falsy.\<close>

fun or100 :: "dimension option \<Rightarrow> dimension" where
  "or100 None = Num 100"
| "or100 (Some (Num n)) = (if n = 0 then Num 100 else Num n)"
| "or100 (Some (Str t)) = (if t = [] then Num 100 else Str t)"

record PlaceholderView =
  ptype :: AlternativeFallbackType
  pwidth :: dimension
  pheight :: dimension
  showIcon :: bool
  showText :: bool

definition AlternativeFallbackPlaceholder ::
    "AlternativeFallbackType \<Rightarrow> dimension \<Rightarrow> dimension \<Rightarrow> PlaceholderView" where
  "AlternativeFallbackPlaceholder t w h =
     \<lparr>ptype = t, pwidth = w, pheight = h,
      showIcon = (case w of Num n \<Rightarrow> n \<ge> 60 | Str _ \<Rightarrow> True),
      showText = (case w of Num n \<Rightarrow> n \<ge> 80 | Str _ \<Rightarrow> True)\<rparr>"

text \<open>
  What the component returns: the placeholder, which carries no event handler, or the
  image primitive with \<open>handleError\<close> and \<open>handleLoadingComplete\<close> attached.
\<close>

datatype view =
    PlaceholderElement PlaceholderView
  | ImageElement "image_src option" "dimension option" "dimension option"

definition render :: "NextImageFallbackProps \<Rightarrow> FallbackState \<Rightarrow> view" where
  "render p s =
     (case alternativeFallback p of
        Some t \<Rightarrow>
          if showAlternativeFallback s
          then PlaceholderElement (AlternativeFallbackPlaceholder t (or100 (width p)) (or100 (height p)))
          else ImageElement (currentSrc s) (width p) (height p)
      | None \<Rightarrow> ImageElement (currentSrc s) (width p) (height p))"

subsection \<open>Events of one source-lifetime\<close>

text \<open>
  The image primitive reports a failed load (\<open>onError\<close>) or a completed one with the natural
  dimensions.  An event reaches a handler only while the image primitive is rendered.  The
  requested source is not among the props the handlers read, and a change of it is the reset
  \<open>srcEffect\<close>, which ends the lifetime.

  \<open>deliver\<close> is one event handled by the handlers of a render that shows the cells \<open>s\<close>
  with the props \<open>p\<close>, the new cells being what the next render shows.
\<close>

datatype image_event = Error | LoadingComplete real real

definition deliver ::
    "NextImageFallbackProps \<Rightarrow> FallbackState \<Rightarrow> image_event \<Rightarrow> FallbackState \<times> callback list" where
  "deliver p s ev =
     (case render p s of
        PlaceholderElement _ \<Rightarrow> (s, [])
      | ImageElement _ _ _ \<Rightarrow>
          (case ev of
             Error \<Rightarrow> handleError p s
           | LoadingComplete w h \<Rightarrow> handleLoadingComplete p s w h))"

text \<open>
  The serialised run: a render precedes every event, so that every handler closes over the
  cells the event before it left.  It is the run of an instance (below) on \<open>serialised\<close>
  events.
\<close>

fun run ::
    "FallbackState \<Rightarrow> (NextImageFallbackProps \<times> image_event) list \<Rightarrow> FallbackState \<times> callback list" where
  "run s [] = (s, [])"
| "run s ((p, ev) # rest) =
     (let (s', calls) = deliver p s ev;
          (s'', calls') = run s' rest
      in (s'', calls @ calls'))"

text \<open>The stages of the specification, read off the state cells.\<close>

datatype stage = Primary | UsingFallback | ShowingStaticPlaceholder

definition stage_of :: "NextImageFallbackProps \<Rightarrow> FallbackState \<Rightarrow> stage" where
  "stage_of p s =
     (if showAlternativeFallback s \<and> alternativeFallback p \<noteq> None then ShowingStaticPlaceholder
      else if hasTriedFallback s then UsingFallback
      else Primary)"

text \<open>The notifications of the machine itself, as opposed to the caller's pass-through callbacks.\<close>

definition internal :: "callback list \<Rightarrow> callback list" where
  "internal calls = filter (\<lambda>c. c = CallOnFallback \<or> c = CallOnAlternativeFallback) calls"

subsection \<open>Renders and closures\<close>

text \<open>
  A handler is a closure of the render that created it: it reads the props and the state
  cells of that render, and each \<open>setState\<close> call it makes takes effect in the cells that the
  next render shows.  The handlers below are the source's handlers in that form: the calls
  to the setters and to the callbacks, in order.
\<close>

datatype setState =
    SetCurrentSrc "image_src option"
  | SetHasTriedFallback bool
  | SetShowAlternativeFallback bool

fun applySetState :: "FallbackState \<Rightarrow> setState \<Rightarrow> FallbackState" where
  "applySetState q (SetCurrentSrc v) = q\<lparr>currentSrc := v\<rparr>"
| "applySetState q (SetHasTriedFallback v) = q\<lparr>hasTriedFallback := v\<rparr>"
| "applySetState q (SetShowAlternativeFallback v) = q\<lparr>showAlternativeFallback := v\<rparr>"

definition handleErrorClosure ::
    "NextImageFallbackProps \<Rightarrow> FallbackState \<Rightarrow> setState list \<times> callback list" where
  "handleErrorClosure p c =
     (let (sets, calls) =
        (if truthy_src (fallbackSrc p) \<and> \<not> hasTriedFallback c \<and> currentSrc c \<noteq> fallbackSrc p
         then ([SetCurrentSrc (fallbackSrc p), SetHasTriedFallback True],
               invoke (onFallback p) CallOnFallback)
         else if hasTriedFallback c \<and> alternativeFallback p \<noteq> None
         then ([SetShowAlternativeFallback True],
               invoke (onAlternativeFallback p) CallOnAlternativeFallback)
         else if \<not> truthy_src (fallbackSrc p) \<and> alternativeFallback p \<noteq> None
         then ([SetShowAlternativeFallback True],
               invoke (onAlternativeFallback p) CallOnAlternativeFallback)
         else ([], []))
      in (sets, calls @ invoke (onError p) CallOnError))"

definition handleLoadingCompleteClosure ::
    "NextImageFallbackProps \<Rightarrow> FallbackState \<Rightarrow> real \<Rightarrow> real \<Rightarrow> setState list \<times> callback list" where
  "handleLoadingCompleteClosure p c naturalWidth naturalHeight =
     (if naturalWidth = 0 \<and> truthy_src (fallbackSrc p) \<and> \<not> hasTriedFallback c
           \<and> currentSrc c \<noteq> fallbackSrc p
      then ([SetCurrentSrc (fallbackSrc p), SetHasTriedFallback True],
            invoke (onFallback p) CallOnFallback)
      else if naturalWidth = 0 \<and> hasTriedFallback c \<and> alternativeFallback p \<noteq> None
      then ([SetShowAlternativeFallback True],
            invoke (onAlternativeFallback p) CallOnAlternativeFallback)
      else ([], invoke (onLoadingComplete p) (CallOnLoadingComplete naturalWidth naturalHeight)))"

text \<open>
  A mounted instance: the props and cells of its last render, which its handlers close over,
  and the cells with every \<open>setState\<close> made since.
\<close>

record Instance =
  viewProps :: NextImageFallbackProps
  closure :: FallbackState
  cells :: FallbackState

definition mount :: "NextImageFallbackProps \<Rightarrow> image_src \<Rightarrow> Instance" where
  "mount p src = \<lparr>viewProps = p, closure = initial src, cells = initial src\<rparr>"

text \<open>
  Within a lifetime the instance renders again, with the props of that moment, or the image
  primitive fires an event at the handlers of the last render.
\<close>

datatype instance_event = Rerender NextImageFallbackProps | Fire image_event

definition instanceStep :: "Instance \<Rightarrow> instance_event \<Rightarrow> Instance \<times> callback list" where
  "instanceStep i e =
     (case e of
        Rerender p \<Rightarrow> (i\<lparr>viewProps := p, closure := cells i\<rparr>, [])
      | Fire ev \<Rightarrow>
          (case render (viewProps i) (closure i) of
             PlaceholderElement _ \<Rightarrow> (i, [])
           | ImageElement _ _ _ \<Rightarrow>
               (let (sets, calls) =
                      (case ev of
                         Error \<Rightarrow> handleErrorClosure (viewProps i) (closure i)
                       | LoadingComplete w h \<Rightarrow>
                           handleLoadingCompleteClosure (viewProps i) (closure i) w h)
                in (i\<lparr>cells := foldl applySetState (cells i) sets\<rparr>, calls))))"

fun instanceRun :: "Instance \<Rightarrow> instance_event list \<Rightarrow> Instance \<times> callback list" where
  "instanceRun i [] = (i, [])"
| "instanceRun i (e # rest) =
     (let (i', calls) = instanceStep i e;
          (i'', calls') = instanceRun i' rest
      in (i'', calls @ calls'))"

text \<open>The events of a lifetime in which a render precedes every event of the image primitive.\<close>

definition serialised :: "(NextImageFallbackProps \<times> image_event) list \<Rightarrow> instance_event list" where
  "serialised pes = concat (map (\<lambda>(p, ev). [Rerender p, Fire ev]) pes)"

section \<open>Retry with backoff (RetryImage.tsx)\<close>

subsection \<open>Configuration\<close>

text \<open>
  The configuration the handlers read.  At run time each value is what the merge below put
  there: a number (or boolean), or \<open>undefined\<close>, written \<open>None\<close>.
\<close>

record RetryConfig =
  maxRetries :: "int option"
  retryDelay :: "real option"
  exponentialBackoff :: "bool option"
  maxDelay :: "real option"

definition DEFAULT_RETRY_CONFIG :: RetryConfig where
  "DEFAULT_RETRY_CONFIG =
     \<lparr>maxRetries = Some 3, retryDelay = Some 1000, exponentialBackoff = Some True,
      maxDelay = Some 10000\<rparr>"

text \<open>
  A key of the caller's \<open>retryConfig\<close> object: left out, present with the value \<open>undefined\<close>
  (which the optional property types admit), or present with a value.
\<close>

datatype 'a key = Absent | Undefined | Given 'a

record RetryConfigOptions =
  optMaxRetries :: "int key"
  optRetryDelay :: "real key"
  optExponentialBackoff :: "bool key"
  optMaxDelay :: "real key"

definition noOptions :: RetryConfigOptions where
  "noOptions = \<lparr>optMaxRetries = Absent, optRetryDelay = Absent,
                 optExponentialBackoff = Absent, optMaxDelay = Absent\<rparr>"

text \<open>
  \<open>{ ...DEFAULT_RETRY_CONFIG, ...retryConfig }\<close>: the spread copies every key that is present,
  also one whose value is \<open>undefined\<close>, over the default.
\<close>

fun spread :: "'a option \<Rightarrow> 'a key \<Rightarrow> 'a option" where
  "spread d Absent = d"
| "spread d Undefined = None"
| "spread d (Given v) = Some v"

definition mergeConfig :: "RetryConfigOptions \<Rightarrow> RetryConfig" where
  "mergeConfig c =
     \<lparr>maxRetries = spread (maxRetries DEFAULT_RETRY_CONFIG) (optMaxRetries c),
      retryDelay = spread (retryDelay DEFAULT_RETRY_CONFIG) (optRetryDelay c),
      exponentialBackoff = spread (exponentialBackoff DEFAULT_RETRY_CONFIG) (optExponentialBackoff c),
      maxDelay = spread (maxDelay DEFAULT_RETRY_CONFIG) (optMaxDelay c)\<rparr>"

text \<open>
  Comparing a counter with a configured number: \<open>a < b\<close> and \<open>a >= b\<close> are both false when
  \<open>b\<close> is \<open>undefined\<close>.
\<close>

fun jsLess :: "int \<Rightarrow> int option \<Rightarrow> bool" where
  "jsLess a None = False"
| "jsLess a (Some b) = (a < b)"

fun jsGreaterEq :: "int \<Rightarrow> int option \<Rightarrow> bool" where
  "jsGreaterEq a None = False"
| "jsGreaterEq a (Some b) = (a \<ge> b)"

text \<open>The host's timer reads a delay that is not a number as 0.\<close>

fun timerDelay :: "real option \<Rightarrow> real" where
  "timerDelay None = 0"
| "timerDelay (Some d) = d"

subsection \<open>State and timers\<close>

text \<open>The source's \<open>RetryState\<close>: the four state cells both the component and the hook keep.\<close>

record RetryState =
  attempts :: int
  isRetrying :: bool
  hasLoaded :: bool
  hasExhaustedRetries :: bool

text \<open>
  \<open>timeoutRef\<close> holds the handle of the timer scheduled last.  The host's timers are part of
  the state: \<open>pending\<close> lists every timer that was scheduled and has neither fired nor been
  cleared, with its delay; \<open>nextHandle\<close> is the handle the next \<open>setTimeout\<close> returns
  (handles are truthy, so they start at 1).
\<close>

record TimedState = RetryState +
  timeoutRef :: "nat option"
  pending :: "(nat \<times> real) list"
  nextHandle :: nat

definition setTimeout :: "real \<Rightarrow> 'a TimedState_scheme \<Rightarrow> 'a TimedState_scheme" where
  "setTimeout delay s =
     s\<lparr>timeoutRef := Some (nextHandle s),
       pending := pending s @ [(nextHandle s, delay)],
       nextHandle := nextHandle s + 1\<rparr>"

definition clearTimeout :: "nat \<Rightarrow> 'a TimedState_scheme \<Rightarrow> 'a TimedState_scheme" where
  "clearTimeout h s = s\<lparr>pending := filter (\<lambda>(i, d). i \<noteq> h) (pending s)\<rparr>"

text \<open>The cleanup both the component and the hook register for unmount.\<close>

definition unmountCleanup :: "'a TimedState_scheme \<Rightarrow> 'a TimedState_scheme" where
  "unmountCleanup s = (case timeoutRef s of Some h \<Rightarrow> clearTimeout h s | None \<Rightarrow> s)"

text \<open>
  The delays of the timers that a step from \<open>s\<close> to \<open>s'\<close> scheduled: those pending in \<open>s'\<close>
  under a handle that \<open>s\<close> had not issued yet.
\<close>

definition scheduledBy :: "'a TimedState_scheme \<Rightarrow> 'b TimedState_scheme \<Rightarrow> real list" where
  "scheduledBy s s' = map snd (filter (\<lambda>(h, d). nextHandle s \<le> h) (pending s'))"

text \<open>A template literal prints an undefined source as \<open>undefined\<close>.\<close>

fun template :: "string option \<Rightarrow> string" where
  "template None = ''undefined''"
| "template (Some u) = u"

fun includesQuery :: "string option \<Rightarrow> bool" where
  "includesQuery None = False"
| "includesQuery (Some u) = (CHR ''?'' \<in> set u)"

text \<open>
  The source a fired timer installs; \<open>now\<close> is the decimal text of \<open>Date.now()\<close> at that
  moment.
\<close>

definition retryUrl :: "string option \<Rightarrow> string \<Rightarrow> string" where
  "retryUrl orig now =
     (let separator = (if includesQuery orig then ''&'' else ''?'')
      in template orig @ separator @ ''_retry='' @ now)"

subsection \<open>The component \<open>RetryImage\<close>\<close>

record RetryImageProps =
  retryFallbackSrc :: "string option"
  retryConfig :: RetryConfigOptions
  retryOnError :: bool
  onRetry :: bool
  onRetriesExhausted :: bool
  onSuccess :: bool

record RetryImageState = TimedState +
  retryCurrentSrc :: "string option"
  originalSrc :: "string option"

datatype retry_callback =
    CallRetryOnError string RetryState
  | CallOnRetry int "int option"
  | CallOnRetriesExhausted
  | CallOnSuccess int

definition notify :: "bool \<Rightarrow> retry_callback \<Rightarrow> retry_callback list" where
  "notify supplied c = (if supplied then [c] else [])"

text \<open>\<open>typeof src === 'string' ? src : undefined\<close>\<close>

fun stringSrc :: "image_src \<Rightarrow> string option" where
  "stringSrc (Url u) = Some u"
| "stringSrc (StaticImport i) = None"

definition mountRetryImage :: "image_src \<Rightarrow> RetryImageState" where
  "mountRetryImage src =
     \<lparr>attempts = 0, isRetrying = False, hasLoaded = False, hasExhaustedRetries = False,
      timeoutRef = None, pending = [], nextHandle = 1,
      retryCurrentSrc = stringSrc src, originalSrc = stringSrc src\<rparr>"

text \<open>The effect on \<open>[src]\<close>.\<close>

definition srcChanged :: "image_src \<Rightarrow> RetryImageState \<Rightarrow> RetryImageState" where
  "srcChanged src s =
     (let newSrc = stringSrc src
      in if newSrc \<noteq> originalSrc s
         then s\<lparr>originalSrc := newSrc, retryCurrentSrc := newSrc, attempts := 0,
                hasLoaded := False, hasExhaustedRetries := False, isRetrying := False\<rparr>
         else s)"

definition retryHandleError ::
    "RetryImageProps \<Rightarrow> RetryImageState \<Rightarrow> RetryImageState \<times> retry_callback list" where
  "retryHandleError p s =
     (let config = mergeConfig (retryConfig p);
          newAttempts = attempts s + 1;
          retryState = \<lparr>attempts = newAttempts, isRetrying = False, hasLoaded = False,
                        hasExhaustedRetries = jsGreaterEq newAttempts (maxRetries config)\<rparr>;
          calls = notify (retryOnError p)
                    (CallRetryOnError (''Image failed to load: '' @ template (retryCurrentSrc s)) retryState)
      in if jsLess newAttempts (maxRetries config)
         then (let s1 = s\<lparr>attempts := newAttempts, isRetrying := True\<rparr>;
                   delay = calculateDelayOf newAttempts (retryDelay config)
                             (exponentialBackoff config) (maxDelay config)
               in (setTimeout (timerDelay delay) s1,
                   calls @ notify (onRetry p) (CallOnRetry newAttempts (maxRetries config))))
         else (let s1 = s\<lparr>attempts := newAttempts, hasExhaustedRetries := True\<rparr>;
                   s2 = (case retryFallbackSrc p of
                           Some f \<Rightarrow> if f \<noteq> [] then s1\<lparr>retryCurrentSrc := Some f\<rparr> else s1
                         | None \<Rightarrow> s1)
               in (s2, calls @ notify (onRetriesExhausted p) CallOnRetriesExhausted)))"

definition retryHandleLoad ::
    "RetryImageProps \<Rightarrow> RetryImageState \<Rightarrow> RetryImageState \<times> retry_callback list" where
  "retryHandleLoad p s =
     (s\<lparr>hasLoaded := True, isRetrying := False\<rparr>, notify (onSuccess p) (CallOnSuccess (attempts s)))"

text \<open>The callback handed to \<open>setTimeout\<close> in \<open>handleError\<close>.\<close>

definition retryTimerCallback :: "string \<Rightarrow> RetryImageState \<Rightarrow> RetryImageState" where
  "retryTimerCallback now s =
     s\<lparr>isRetrying := False, retryCurrentSrc := Some (retryUrl (originalSrc s) now)\<rparr>"

text \<open>
  The events of a mounted instance.  A timer fires only while it is pending and is no longer
  pending afterwards.  The props, and with them the configuration, are those of the run
  (\<open>retryRun\<close> keeps them fixed), and each event is handled by the render that follows the
  event before it.
\<close>

datatype retry_event = ImgError | ImgLoad | TimerFired nat string | SrcChanged image_src

definition retryStep ::
    "RetryImageProps \<Rightarrow> RetryImageState \<Rightarrow> retry_event \<Rightarrow> RetryImageState \<times> retry_callback list" where
  "retryStep p s ev =
     (case ev of
        ImgError \<Rightarrow> retryHandleError p s
      | ImgLoad \<Rightarrow> retryHandleLoad p s
      | TimerFired h now \<Rightarrow>
          if h \<in> fst ` set (pending s) then (retryTimerCallback now (clearTimeout h s), []) else (s, [])
      | SrcChanged src \<Rightarrow> (srcChanged src s, []))"

fun retryRun ::
    "RetryImageProps \<Rightarrow> RetryImageState \<Rightarrow> retry_event list \<Rightarrow> RetryImageState \<times> retry_callback list" where
  "retryRun p s [] = (s, [])"
| "retryRun p s (ev # rest) =
     (let (s', calls) = retryStep p s ev;
          (s'', calls') = retryRun p s' rest
      in (s'', calls @ calls'))"

fun isSrcChanged :: "retry_event \<Rightarrow> bool" where
  "isSrcChanged (SrcChanged src) = True"
| "isSrcChanged ev = False"

subsection \<open>The hook \<open>useImageRetry\<close>\<close>

record HookState = TimedState +
  hookSrc :: string
  error :: "string option"
  hookOriginalSrc :: string

definition mountHook :: "string \<Rightarrow> HookState" where
  "mountHook initialSrc =
     \<lparr>attempts = 0, isRetrying = False, hasLoaded = False, hasExhaustedRetries = False,
      timeoutRef = None, pending = [], nextHandle = 1,
      hookSrc = initialSrc, error = None, hookOriginalSrc = initialSrc\<rparr>"

definition reset :: "HookState \<Rightarrow> HookState" where
  "reset s =
     s\<lparr>hookSrc := hookOriginalSrc s, attempts := 0, isRetrying := False, hasLoaded := False,
       hasExhaustedRetries := False, error := None\<rparr>"

definition retry :: "RetryConfigOptions \<Rightarrow> HookState \<Rightarrow> bool \<times> HookState" where
  "retry c s =
     (let finalConfig = mergeConfig c;
          newAttempts = attempts s + 1
      in if jsGreaterEq newAttempts (maxRetries finalConfig)
         then (False, s\<lparr>hasExhaustedRetries := True\<rparr>)
         else (let s1 = s\<lparr>attempts := newAttempts, isRetrying := True\<rparr>;
                   delay = calculateDelayOf newAttempts (retryDelay finalConfig)
                             (exponentialBackoff finalConfig) (maxDelay finalConfig)
               in (True, setTimeout (timerDelay delay) s1)))"

definition hookHandleError :: "RetryConfigOptions \<Rightarrow> string option \<Rightarrow> HookState \<Rightarrow> HookState" where
  "hookHandleError c err s =
     (let s1 = s\<lparr>error := Some (case err of Some m \<Rightarrow> m | None \<Rightarrow> ''Image failed to load'')\<rparr>
      in snd (retry c s1))"

definition hookHandleLoad :: "HookState \<Rightarrow> HookState" where
  "hookHandleLoad s = s\<lparr>hasLoaded := True, isRetrying := False, error := None\<rparr>"

definition hookTimerCallback :: "string \<Rightarrow> HookState \<Rightarrow> HookState" where
  "hookTimerCallback now s =
     s\<lparr>isRetrying := False, hookSrc := retryUrl (Some (hookOriginalSrc s)) now\<rparr>"

datatype hook_event =
    HookError "string option"
  | HookRetry
  | HookLoad
  | HookReset
  | HookTimerFired nat string

definition hookStep :: "RetryConfigOptions \<Rightarrow> HookState \<Rightarrow> hook_event \<Rightarrow> HookState" where
  "hookStep c s ev =
     (case ev of
        HookError err \<Rightarrow> hookHandleError c err s
      | HookRetry \<Rightarrow> snd (retry c s)
      | HookLoad \<Rightarrow> hookHandleLoad s
      | HookReset \<Rightarrow> reset s
      | HookTimerFired h now \<Rightarrow>
          if h \<in> fst ` set (pending s) then hookTimerCallback now (clearTimeout h s) else s)"

fun hookRun :: "RetryConfigOptions \<Rightarrow> HookState \<Rightarrow> hook_event list \<Rightarrow> HookState" where
  "hookRun c s [] = s"
| "hookRun c s (ev # rest) = hookRun c (hookStep c s ev) rest"

section \<open>Example inputs\<close>

text \<open>The props of the repository's tests, with every callback supplied.\<close>

definition exampleProps :: NextImageFallbackProps where
  "exampleProps =
     \<lparr>fallbackSrc = Some (Url ''/fallback.png''), onFallback = True, onError = True,
      onLoadingComplete = True, alternativeFallback = Some gradient,
      onAlternativeFallback = True, width = Some (Num 200), height = Some (Num 200)\<rparr>"

definition exampleRetryProps :: RetryImageProps where
  "exampleRetryProps =
     \<lparr>retryFallbackSrc = None, retryConfig = noOptions, retryOnError = False,
      onRetry = True, onRetriesExhausted = True, onSuccess = True\<rparr>"

definition exampleUrl :: string where
  "exampleUrl = ''https://example.com/image.jpg''"

section \<open>Properties of the retry delay\<close>

text \<open>
  C2.  For every attempt number \<open>n \<ge> 1\<close> and every configuration, the computed delay is
  \<open>baseDelay\<close> when exponential backoff is off and \<open>min (baseDelay * 2 ^ (n - 1)) maxDelay\<close>
  when it is on; with \<open>exponentialBackoff = false\<close> and \<open>retryDelay = 500\<close> every delay is 500.
\<close>

theorem calculateDelay_formula:
  "1 \<le> n \<Longrightarrow>
     calculateDelay n base False cap = base
   \<and> calculateDelay n base True cap = min (base * 2 ^ nat (n - 1)) cap
   \<and> calculateDelay n 500 False cap = 500"
  by (simp add: calculateDelay_def power_int_def)

theorem calculateDelay_formula_witness:
  "(1::int) \<le> 3
   \<and> calculateDelay 3 1000 False 10000 = 1000
   \<and> calculateDelay 3 1000 True 10000 = 4000
   \<and> calculateDelay 3 500 False 10000 = 500"
  using calculateDelay_formula [of 3 1000 10000] by simp

section \<open>Properties of the fallback escalation\<close>

subsection \<open>Each notification fires at most once\<close>

lemmas fallback_defs = deliver_def render_def handleError_def handleLoadingComplete_def invoke_def

lemma deliver_keeps_tried:
  "hasTriedFallback s \<Longrightarrow> hasTriedFallback (fst (deliver p s ev))"
  by (auto simp: fallback_defs split: option.splits image_event.splits)

lemma deliver_keeps_shown:
  "showAlternativeFallback s \<Longrightarrow> showAlternativeFallback (fst (deliver p s ev))"
  by (auto simp: fallback_defs split: option.splits image_event.splits)

lemma deliver_onFallback:
  "count_list (snd (deliver p s ev)) CallOnFallback \<le> (if hasTriedFallback s then 0 else 1)"
  by (auto simp: fallback_defs split: option.splits image_event.splits)

lemma deliver_onFallback_tried:
  "CallOnFallback \<in> set (snd (deliver p s ev)) \<Longrightarrow> hasTriedFallback (fst (deliver p s ev))"
  by (auto simp: fallback_defs split: option.splits image_event.splits if_splits)

lemma deliver_onAlternative:
  "count_list (snd (deliver p s ev)) CallOnAlternativeFallback
     \<le> (if showAlternativeFallback s then 0 else 1)"
  by (auto simp: fallback_defs split: option.splits image_event.splits)

lemma deliver_onAlternative_shown:
  "CallOnAlternativeFallback \<in> set (snd (deliver p s ev))
     \<Longrightarrow> showAlternativeFallback (fst (deliver p s ev))"
  by (auto simp: fallback_defs split: option.splits image_event.splits if_splits)

lemma run_Cons_calls:
  "snd (run s ((p, ev) # rest)) = snd (deliver p s ev) @ snd (run (fst (deliver p s ev)) rest)"
  by (simp split: prod.splits)

lemma run_Cons_state:
  "fst (run s ((p, ev) # rest)) = fst (run (fst (deliver p s ev)) rest)"
  by (simp split: prod.splits)

text \<open>
  A callback that can only be made while a latch is open, and closes it, is made at most
  once in a run.
\<close>

lemma run_latched:
  assumes keep: "\<And>p s ev. L s \<Longrightarrow> L (fst (deliver p s ev))"
    and bound: "\<And>p s ev. count_list (snd (deliver p s ev)) c \<le> (if L s then 0 else 1)"
    and closes: "\<And>p s ev. c \<in> set (snd (deliver p s ev)) \<Longrightarrow> L (fst (deliver p s ev))"
  shows "count_list (snd (run s evs)) c \<le> (if L s then 0 else 1)"
proof (induction evs arbitrary: s)
  case Nil
  show ?case by simp
next
  case (Cons pe evs)
  obtain p ev where pe: "pe = (p, ev)" by (cases pe)
  let ?s' = "fst (deliver p s ev)" and ?calls = "snd (deliver p s ev)"
  have total: "count_list (snd (run s (pe # evs))) c
      = count_list ?calls c + count_list (snd (run ?s' evs)) c"
    unfolding pe run_Cons_calls by simp
  have first: "count_list ?calls c \<le> (if L s then 0 else 1)"
    by (rule bound)
  have rest: "count_list (snd (run ?s' evs)) c \<le> (if L ?s' then 0 else 1)"
    by (rule Cons.IH)
  show ?case
  proof (cases "c \<in> set ?calls")
    case True
    then have "L ?s'" by (rule closes)
    with rest first total show ?thesis by (simp split: if_splits)
  next
    case False
    then have zero: "count_list ?calls c = 0"
      by (simp add: count_list_0_iff)
    show ?thesis
    proof (cases "L s")
      case True
      then have "L ?s'" by (rule keep)
      with rest zero total True show ?thesis by simp
    next
      case False
      with rest zero total show ?thesis by (simp split: if_splits)
    qed
  qed
qed

text \<open>
  Rendering is what closes the second latch: \<open>handleError\<close> on its own, called again
  after a tried fallback, repeats the placeholder call, but once the placeholder is showing
  no handler is attached any more.
\<close>

lemma handleError_after_placeholder:
  "hasTriedFallback s \<Longrightarrow> alternativeFallback p \<noteq> None \<Longrightarrow> onAlternativeFallback p \<Longrightarrow>
     CallOnAlternativeFallback \<in> set (snd (handleError p s))"
  by (simp add: handleError_def invoke_def)

lemma deliver_after_placeholder:
  "showAlternativeFallback s \<Longrightarrow> alternativeFallback p \<noteq> None \<Longrightarrow> deliver p s ev = (s, [])"
  by (auto simp: deliver_def render_def)

lemma srcEffect_initial: "srcEffect requested s = initial requested"
  by (simp add: srcEffect_def initial_def)

text \<open>
  With a render before every event, each notification is made at most once, whatever the
  events and whatever the other props at each of them.
\<close>

lemma serialised_at_most_once:
  "count_list (snd (run (initial src) evs)) CallOnFallback \<le> 1
   \<and> count_list (snd (run (initial src) evs)) CallOnAlternativeFallback \<le> 1"
proof
  have "count_list (snd (run (initial src) evs)) CallOnFallback
          \<le> (if hasTriedFallback (initial src) then 0 else 1)"
    by (rule run_latched [where L = hasTriedFallback])
       (simp_all add: deliver_keeps_tried deliver_onFallback deliver_onFallback_tried)
  then show "count_list (snd (run (initial src) evs)) CallOnFallback \<le> 1"
    by (simp split: if_splits)
next
  have "count_list (snd (run (initial src) evs)) CallOnAlternativeFallback
          \<le> (if showAlternativeFallback (initial src) then 0 else 1)"
    by (rule run_latched [where L = showAlternativeFallback])
       (simp_all add: deliver_keeps_shown deliver_onAlternative deliver_onAlternative_shown)
  then show "count_list (snd (run (initial src) evs)) CallOnAlternativeFallback \<le> 1"
    by (simp split: if_splits)
qed

lemma example_run:
  "run (initial (Url ''/primary.png''))
       [(exampleProps, Error), (exampleProps, LoadingComplete 0 0), (exampleProps, Error)]
     = (\<lparr>currentSrc = Some (Url ''/fallback.png''), hasTriedFallback = True,
          showAlternativeFallback = True\<rparr>,
        [CallOnFallback, CallOnError, CallOnAlternativeFallback])"
  by (simp add: fallback_defs initial_def exampleProps_def AlternativeFallbackPlaceholder_def)

subsection \<open>Events handled by one render\<close>

text \<open>The state-passing handlers are the closures applied to the cells they read.\<close>

lemma handleError_closure:
  "handleError p s
     = (foldl applySetState s (fst (handleErrorClosure p s)), snd (handleErrorClosure p s))"
  by (simp add: handleError_def handleErrorClosure_def)

lemma handleLoadingComplete_closure:
  "handleLoadingComplete p s w h
     = (foldl applySetState s (fst (handleLoadingCompleteClosure p s w h)),
        snd (handleLoadingCompleteClosure p s w h))"
  by (auto simp: handleLoadingComplete_def handleLoadingCompleteClosure_def)

lemma render_then_fire:
  "cells (fst (instanceRun i [Rerender p, Fire ev])) = fst (deliver p (cells i) ev)
   \<and> snd (instanceRun i [Rerender p, Fire ev]) = snd (deliver p (cells i) ev)"
  by (cases ev)
     (auto simp: instanceStep_def deliver_def handleError_closure handleLoadingComplete_closure
           split: view.splits prod.splits)

lemma instanceRun_append:
  "instanceRun i (xs @ ys) =
     (fst (instanceRun (fst (instanceRun i xs)) ys),
      snd (instanceRun i xs) @ snd (instanceRun (fst (instanceRun i xs)) ys))"
  by (induction xs arbitrary: i) (simp_all split: prod.splits)

lemma instanceRun_serialised:
  "cells (fst (instanceRun i (serialised pes))) = fst (run (cells i) pes)
   \<and> snd (instanceRun i (serialised pes)) = snd (run (cells i) pes)"
proof (induction pes arbitrary: i)
  case Nil
  show ?case by (simp add: serialised_def)
next
  case (Cons pe pes)
  obtain p ev where pe: "pe = (p, ev)" by (cases pe)
  define j where "j = fst (instanceRun i [Rerender p, Fire ev])"
  define first where "first = snd (instanceRun i [Rerender p, Fire ev])"
  have split: "serialised (pe # pes) = [Rerender p, Fire ev] @ serialised pes"
    by (simp add: serialised_def pe)
  have j: "cells j = fst (deliver p (cells i) ev)"
    unfolding j_def by (rule conjunct1 [OF render_then_fire])
  have first: "first = snd (deliver p (cells i) ev)"
    unfolding first_def by (rule conjunct2 [OF render_then_fire])
  have whole: "instanceRun i (serialised (pe # pes))
      = (fst (instanceRun j (serialised pes)), first @ snd (instanceRun j (serialised pes)))"
    unfolding split j_def first_def by (rule instanceRun_append)
  have rest: "cells (fst (instanceRun j (serialised pes))) = fst (run (cells j) pes)
      \<and> snd (instanceRun j (serialised pes)) = snd (run (cells j) pes)"
    by (rule Cons.IH)
  show ?case
    using rest j first whole unfolding pe run_Cons_calls run_Cons_state by simp
qed

lemma serialised_instance_at_most_once:
  "count_list (snd (instanceRun (mount p src) (serialised pes))) CallOnFallback \<le> 1
   \<and> count_list (snd (instanceRun (mount p src) (serialised pes))) CallOnAlternativeFallback \<le> 1"
  using serialised_at_most_once [of src pes] instanceRun_serialised [of "mount p src" pes]
  by (simp add: mount_def)

text \<open>
  C1.  Two failure events handled by the handlers of one render both read
  \<open>hasTriedFallback = false\<close> and the primary \<open>currentSrc\<close> of that render: \<open>onFallback\<close> is
  invoked twice within one source-lifetime, by two errors and likewise by an error and a
  completed load of width 0.  Without a fallback source the same two errors invoke
  \<open>onAlternativeFallback\<close> twice.  With a render between the two errors each is invoked once.
\<close>

theorem batched_failures_notify_twice:
  "snd (instanceRun (mount exampleProps (Url ''/primary.png'')) [Fire Error, Fire Error])
     = [CallOnFallback, CallOnError, CallOnFallback, CallOnError]
   \<and> snd (instanceRun (mount exampleProps (Url ''/primary.png''))
            [Fire Error, Fire (LoadingComplete 0 0)])
     = [CallOnFallback, CallOnError, CallOnFallback]
   \<and> snd (instanceRun (mount (exampleProps\<lparr>fallbackSrc := None\<rparr>) (Url ''/primary.png''))
            [Fire Error, Fire Error])
     = [CallOnAlternativeFallback, CallOnError, CallOnAlternativeFallback, CallOnError]
   \<and> snd (instanceRun (mount exampleProps (Url ''/primary.png''))
            [Fire Error, Rerender exampleProps, Fire Error])
     = [CallOnFallback, CallOnError, CallOnAlternativeFallback, CallOnError]"
  by (simp add: instanceStep_def handleErrorClosure_def handleLoadingCompleteClosure_def
      render_def mount_def initial_def exampleProps_def invoke_def)

subsection \<open>The first failure\<close>

text \<open>
  With fixed props, a state reached from mount is the initial one, or the fallback has been
  tried, or the placeholder is showing.
\<close>

lemma deliver_reachable:
  "s = initial requested \<or> hasTriedFallback s
     \<or> (showAlternativeFallback s \<and> alternativeFallback p \<noteq> None) \<Longrightarrow>
   fst (deliver p s ev) = initial requested \<or> hasTriedFallback (fst (deliver p s ev))
     \<or> (showAlternativeFallback (fst (deliver p s ev)) \<and> alternativeFallback p \<noteq> None)"
  by (auto simp: fallback_defs split: option.splits image_event.splits)

lemma run_reachable:
  "s = initial requested \<or> hasTriedFallback s
     \<or> (showAlternativeFallback s \<and> alternativeFallback p \<noteq> None) \<Longrightarrow>
   fst (run s (map (Pair p) evs)) = initial requested
     \<or> hasTriedFallback (fst (run s (map (Pair p) evs)))
     \<or> (showAlternativeFallback (fst (run s (map (Pair p) evs))) \<and> alternativeFallback p \<noteq> None)"
proof (induction evs arbitrary: s)
  case Nil
  then show ?case by simp
next
  case (Cons ev evs)
  have "fst (run s (map (Pair p) (ev # evs))) = fst (run (fst (deliver p s ev)) (map (Pair p) evs))"
    by (simp split: prod.splits)
  moreover note Cons.IH [OF deliver_reachable [OF Cons.prems, of ev]]
  ultimately show ?case by simp
qed

lemma primary_is_initial:
  assumes "s = fst (run (initial requested) (map (Pair p) evs))"
    and "stage_of p s = Primary"
  shows "s = initial requested"
proof -
  have "s = initial requested \<or> hasTriedFallback s
      \<or> (showAlternativeFallback s \<and> alternativeFallback p \<noteq> None)"
    unfolding assms(1) by (rule run_reachable) simp
  with assms(2) show ?thesis
    by (auto simp: stage_of_def split: if_splits)
qed

text \<open>
  C4, as stated, fails where \<open>fallbackSrc\<close> is set and equals the requested source: the first
  branch is skipped because the sources are equal, the second because no fallback was
  tried, the third because \<open>fallbackSrc\<close> is set.  The placeholder kind is set, yet the
  failure changes nothing and \<open>onAlternativeFallback\<close> is not invoked.
\<close>

theorem primary_failure_counterexample:
  "stage_of (exampleProps\<lparr>fallbackSrc := Some (Url ''/primary.png'')\<rparr>) (initial (Url ''/primary.png'')) = Primary
   \<and> alternativeFallback (exampleProps\<lparr>fallbackSrc := Some (Url ''/primary.png'')\<rparr>) = Some gradient
   \<and> handleError (exampleProps\<lparr>fallbackSrc := Some (Url ''/primary.png'')\<rparr>) (initial (Url ''/primary.png''))
       = (initial (Url ''/primary.png''), [CallOnError])
   \<and> stage_of (exampleProps\<lparr>fallbackSrc := Some (Url ''/primary.png'')\<rparr>)
         (fst (handleError (exampleProps\<lparr>fallbackSrc := Some (Url ''/primary.png'')\<rparr>)
                (initial (Url ''/primary.png'')))) \<noteq> ShowingStaticPlaceholder"
  by (simp add: stage_of_def exampleProps_def initial_def handleError_def invoke_def)

text \<open>
  C4, amended.  For every failure reported to \<open>handleError\<close> in the Primary stage: if
  \<open>fallbackSrc\<close> is set (truthy) and differs from the requested source, the machine moves to
  UsingFallback with \<open>currentSrc = fallbackSrc\<close> and invokes \<open>onFallback\<close>; if \<open>fallbackSrc\<close>
  is unset and a placeholder kind is set, it moves directly to ShowingStaticPlaceholder and
  invokes \<open>onAlternativeFallback\<close>.  (Callbacks are invoked when supplied.)
\<close>

theorem primary_failure_transitions:
  assumes "s = fst (run (initial requested) (map (Pair p) evs))"
    and "stage_of p s = Primary"
  shows "(truthy_src (fallbackSrc p) \<and> fallbackSrc p \<noteq> Some requested \<longrightarrow>
            handleError p s =
              (\<lparr>currentSrc = fallbackSrc p, hasTriedFallback = True, showAlternativeFallback = False\<rparr>,
               invoke (onFallback p) CallOnFallback @ invoke (onError p) CallOnError)
            \<and> stage_of p (fst (handleError p s)) = UsingFallback)
       \<and> (\<not> truthy_src (fallbackSrc p) \<and> alternativeFallback p \<noteq> None \<longrightarrow>
            handleError p s =
              (\<lparr>currentSrc = Some requested, hasTriedFallback = False, showAlternativeFallback = True\<rparr>,
               invoke (onAlternativeFallback p) CallOnAlternativeFallback @ invoke (onError p) CallOnError)
            \<and> stage_of p (fst (handleError p s)) = ShowingStaticPlaceholder)"
proof -
  have s: "s = initial requested"
    using assms by (rule primary_is_initial)
  show ?thesis
    unfolding s by (simp add: handleError_def initial_def stage_of_def)
qed

theorem primary_failure_transitions_witness:
  "handleError exampleProps (initial (Url ''/primary.png'')) =
     (\<lparr>currentSrc = Some (Url ''/fallback.png''), hasTriedFallback = True, showAlternativeFallback = False\<rparr>,
      [CallOnFallback, CallOnError])
   \<and> handleError (exampleProps\<lparr>fallbackSrc := None\<rparr>) (initial (Url ''/primary.png'')) =
     (\<lparr>currentSrc = Some (Url ''/primary.png''), hasTriedFallback = False, showAlternativeFallback = True\<rparr>,
      [CallOnAlternativeFallback, CallOnError])"
proof -
  let ?r = "Url ''/primary.png''" and ?q = "exampleProps\<lparr>fallbackSrc := None\<rparr>"
  have reach1: "initial ?r = fst (run (initial ?r) (map (Pair exampleProps) [LoadingComplete 64 64]))"
    by (simp add: fallback_defs initial_def exampleProps_def)
  have reach2: "initial ?r = fst (run (initial ?r) (map (Pair ?q) [LoadingComplete 64 64]))"
    by (simp add: fallback_defs initial_def exampleProps_def)
  have prim1: "stage_of exampleProps (initial ?r) = Primary"
    by (simp add: stage_of_def initial_def)
  have prim2: "stage_of ?q (initial ?r) = Primary"
    by (simp add: stage_of_def initial_def)
  have set1: "truthy_src (fallbackSrc exampleProps) \<and> fallbackSrc exampleProps \<noteq> Some ?r"
    by (simp add: exampleProps_def)
  have set2: "\<not> truthy_src (fallbackSrc ?q) \<and> alternativeFallback ?q \<noteq> None"
    by (simp add: exampleProps_def)
  from primary_failure_transitions [OF reach1 prim1] set1
    primary_failure_transitions [OF reach2 prim2] set2
  show ?thesis
    by (simp add: exampleProps_def invoke_def)
qed

subsection \<open>The caller's own callbacks\<close>

text \<open>
  C8, as stated, fails on the load path: a completed load that reports width 0 while a fallback
  is still untried switches to the fallback and returns before \<open>onLoadingComplete\<close>, although
  the caller supplied it.
\<close>

theorem caller_callbacks_counterexample:
  "onLoadingComplete exampleProps
   \<and> handleLoadingComplete exampleProps (initial (Url ''/primary.png'')) 0 0 =
       (\<lparr>currentSrc = Some (Url ''/fallback.png''), hasTriedFallback = True,
          showAlternativeFallback = False\<rparr>,
        [CallOnFallback])
   \<and> CallOnLoadingComplete 0 0
         \<notin> set (snd (handleLoadingComplete exampleProps (initial (Url ''/primary.png'')) 0 0))"
  by (simp add: exampleProps_def initial_def handleLoadingComplete_def invoke_def)

text \<open>
  C8, amended.  A supplied \<open>onError\<close> is invoked exactly once for every failure event,
  however the event is handled internally.  A supplied \<open>onLoadingComplete\<close> is invoked for
  every completed load except one that reports natural width 0 and is handled internally
  (the switch to the fallback, or the placeholder after a tried fallback): there the handler
  returns before the call.
\<close>

theorem caller_callbacks:
  "count_list (snd (handleError p s)) CallOnError = (if onError p then 1 else 0)
   \<and> (CallOnLoadingComplete w h \<in> set (snd (handleLoadingComplete p s w h)) \<longleftrightarrow>
        onLoadingComplete p
        \<and> \<not> (w = 0
             \<and> ((truthy_src (fallbackSrc p) \<and> \<not> hasTriedFallback s \<and> currentSrc s \<noteq> fallbackSrc p)
                \<or> (hasTriedFallback s \<and> alternativeFallback p \<noteq> None))))"
proof
  show "count_list (snd (handleError p s)) CallOnError = (if onError p then 1 else 0)"
    by (simp add: handleError_def invoke_def)
next
  show "CallOnLoadingComplete w h \<in> set (snd (handleLoadingComplete p s w h)) \<longleftrightarrow>
        onLoadingComplete p
        \<and> \<not> (w = 0
             \<and> ((truthy_src (fallbackSrc p) \<and> \<not> hasTriedFallback s \<and> currentSrc s \<noteq> fallbackSrc p)
                \<or> (hasTriedFallback s \<and> alternativeFallback p \<noteq> None)))"
    by (auto simp: handleLoadingComplete_def invoke_def)
qed

theorem caller_callbacks_witness:
  "count_list (snd (handleError exampleProps (initial (Url ''/primary.png'')))) CallOnError = 1
   \<and> CallOnLoadingComplete 64 48
        \<in> set (snd (handleLoadingComplete exampleProps (initial (Url ''/primary.png'')) 64 48))
   \<and> CallOnLoadingComplete 0 0
        \<notin> set (snd (handleLoadingComplete exampleProps (initial (Url ''/primary.png'')) 0 0))"
  using caller_callbacks [of exampleProps "initial (Url ''/primary.png'')" 64 48]
    caller_callbacks [of exampleProps "initial (Url ''/primary.png'')" 0 0]
  by (simp add: exampleProps_def initial_def)

subsection \<open>Explicit errors and zero-width loads\<close>

text \<open>
  The two failure paths take the same branch, with the same state change and the same
  internal notification, in every state but one: no fallback tried, \<open>fallbackSrc\<close> unset and a
  placeholder kind set.
\<close>

lemma failure_paths_agree:
  "\<not> (\<not> hasTriedFallback s \<and> \<not> truthy_src (fallbackSrc p) \<and> alternativeFallback p \<noteq> None) \<Longrightarrow>
     fst (handleLoadingComplete p s 0 h) = fst (handleError p s)
     \<and> internal (snd (handleLoadingComplete p s 0 h)) = internal (snd (handleError p s))"
  by (auto simp: handleLoadingComplete_def handleError_def invoke_def internal_def)

text \<open>
  C9.  In that state the explicit error shows the placeholder and invokes
  \<open>onAlternativeFallback\<close> (the third branch of \<open>handleError\<close>), while the load that reports
  zero natural dimensions leaves the state as it is and only calls \<open>onLoadingComplete\<close>:
  \<open>handleLoadingComplete\<close> has no counterpart of that branch.
\<close>

theorem failure_paths_differ:
  "handleError (exampleProps\<lparr>fallbackSrc := None\<rparr>) (initial (Url ''/primary.png'')) =
     (\<lparr>currentSrc = Some (Url ''/primary.png''), hasTriedFallback = False,
        showAlternativeFallback = True\<rparr>,
      [CallOnAlternativeFallback, CallOnError])
   \<and> handleLoadingComplete (exampleProps\<lparr>fallbackSrc := None\<rparr>) (initial (Url ''/primary.png'')) 0 0 =
     (\<lparr>currentSrc = Some (Url ''/primary.png''), hasTriedFallback = False,
        showAlternativeFallback = False\<rparr>,
      [CallOnLoadingComplete 0 0])"
  by (simp add: exampleProps_def initial_def handleError_def handleLoadingComplete_def invoke_def)

subsection \<open>The placeholder's dimensions\<close>

text \<open>
  C10.  When the placeholder is rendered, a \<open>width\<close> (likewise \<open>height\<close>) that is missing or 0
  is replaced by 100, so icon and text are shown then; the icon is hidden only for a numeric
  width below 60 and the text only for a numeric width below 80; a string width shows both.
\<close>

theorem placeholder_thresholds:
  assumes "showAlternativeFallback s" and "alternativeFallback p = Some t"
  shows "render p s = PlaceholderElement (AlternativeFallbackPlaceholder t (or100 (width p)) (or100 (height p)))
    \<and> (width p = None \<or> width p = Some (Num 0) \<longrightarrow>
          AlternativeFallbackPlaceholder t (or100 (width p)) (or100 (height p))
            = \<lparr>ptype = t, pwidth = Num 100, pheight = or100 (height p), showIcon = True, showText = True\<rparr>)
    \<and> (height p = None \<or> height p = Some (Num 0) \<longrightarrow> or100 (height p) = Num 100)
    \<and> (\<not> showIcon (AlternativeFallbackPlaceholder t (or100 (width p)) (or100 (height p))) \<longrightarrow>
          (\<exists>n. width p = Some (Num n) \<and> n < 60))
    \<and> (\<not> showText (AlternativeFallbackPlaceholder t (or100 (width p)) (or100 (height p))) \<longrightarrow>
          (\<exists>n. width p = Some (Num n) \<and> n < 80))
    \<and> (\<forall>u. width p = Some (Str u) \<longrightarrow>
          showIcon (AlternativeFallbackPlaceholder t (or100 (width p)) (or100 (height p)))
          \<and> showText (AlternativeFallbackPlaceholder t (or100 (width p)) (or100 (height p))))
    \<and> (\<forall>n. width p = Some (Num n) \<and> n \<noteq> 0 \<longrightarrow>
          showIcon (AlternativeFallbackPlaceholder t (or100 (width p)) (or100 (height p))) = (60 \<le> n)
          \<and> showText (AlternativeFallbackPlaceholder t (or100 (width p)) (or100 (height p))) = (80 \<le> n))"
proof -
  have shown: "render p s
      = PlaceholderElement (AlternativeFallbackPlaceholder t (or100 (width p)) (or100 (height p)))"
    using assms by (simp add: render_def)
  have icon: "\<not> showIcon (AlternativeFallbackPlaceholder t (or100 w) hh) \<Longrightarrow> \<exists>n. w = Some (Num n) \<and> n < 60"
    for w hh
    by (cases w rule: or100.cases) (auto simp: AlternativeFallbackPlaceholder_def split: if_splits)
  have label: "\<not> showText (AlternativeFallbackPlaceholder t (or100 w) hh) \<Longrightarrow> \<exists>n. w = Some (Num n) \<and> n < 80"
    for w hh
    by (cases w rule: or100.cases) (auto simp: AlternativeFallbackPlaceholder_def split: if_splits)
  have str: "w = Some (Str u) \<Longrightarrow>
      showIcon (AlternativeFallbackPlaceholder t (or100 w) hh)
      \<and> showText (AlternativeFallbackPlaceholder t (or100 w) hh)" for w u hh
    by (auto simp: AlternativeFallbackPlaceholder_def)
  have missing: "w = None \<or> w = Some (Num 0) \<Longrightarrow>
      AlternativeFallbackPlaceholder t (or100 w) hh
        = \<lparr>ptype = t, pwidth = Num 100, pheight = hh, showIcon = True, showText = True\<rparr>" for w hh
    by (auto simp: AlternativeFallbackPlaceholder_def)
  have num: "w = Some (Num n) \<and> n \<noteq> 0 \<Longrightarrow>
      showIcon (AlternativeFallbackPlaceholder t (or100 w) hh) = (60 \<le> n)
      \<and> showText (AlternativeFallbackPlaceholder t (or100 w) hh) = (80 \<le> n)" for w n hh
    by (auto simp: AlternativeFallbackPlaceholder_def)
  have hmissing: "height p = None \<or> height p = Some (Num 0) \<Longrightarrow> or100 (height p) = Num 100"
    by auto
  from shown icon label str num missing hmissing show ?thesis
    by blast
qed

theorem placeholder_thresholds_witness:
  "render (exampleProps\<lparr>width := None, height := Some (Num 0)\<rparr>)
      \<lparr>currentSrc = Some (Url ''/fallback.png''), hasTriedFallback = True, showAlternativeFallback = True\<rparr>
     = PlaceholderElement
         \<lparr>ptype = gradient, pwidth = Num 100, pheight = Num 100, showIcon = True, showText = True\<rparr>"
proof -
  let ?p = "exampleProps\<lparr>width := None, height := Some (Num 0)\<rparr>"
  let ?s = "\<lparr>currentSrc = Some (Url ''/fallback.png''), hasTriedFallback = True,
             showAlternativeFallback = True\<rparr>"
  have shown: "showAlternativeFallback ?s" by simp
  have kind: "alternativeFallback ?p = Some gradient" by (simp add: exampleProps_def)
  have dims: "width ?p = None \<or> width ?p = Some (Num 0)" "height ?p = None \<or> height ?p = Some (Num 0)"
    by simp_all
  from placeholder_thresholds [OF shown kind] dims show ?thesis
    by simp
qed

section \<open>Properties of the retry machine\<close>

subsection \<open>The schedule of the default configuration\<close>

lemmas retry_defs = retryStep_def retryHandleError_def retryHandleLoad_def retryTimerCallback_def
  srcChanged_def setTimeout_def clearTimeout_def notify_def mergeConfig_def DEFAULT_RETRY_CONFIG_def
  noOptions_def calculateDelayOf_def calculateDelay_def

lemma retryRun_Cons_state:
  "fst (retryRun p s (ev # rest)) = fst (retryRun p (fst (retryStep p s ev)) rest)"
  by (simp split: prod.splits)

lemma retryRun_Cons_calls:
  "snd (retryRun p s (ev # rest)) = snd (retryStep p s ev) @ snd (retryRun p (fst (retryStep p s ev)) rest)"
  by (simp split: prod.splits)

text \<open>
  C3, as stated, fails at the third failure: with \<open>maxRetries = 3\<close> the test
  \<open>newAttempts < config.maxRetries\<close> is false there, so no timer is scheduled and no delay of
  4000 occurs.  Three failures in a row leave the timers of the first two; with each timer
  fired before the next failure, the third failure schedules nothing.
\<close>

theorem default_schedule_counterexample:
  "mergeConfig (retryConfig exampleRetryProps) = DEFAULT_RETRY_CONFIG
   \<and> pending (fst (retryRun exampleRetryProps (mountRetryImage (Url exampleUrl))
                  [ImgError, ImgError, ImgError])) = [(1, 1000), (2, 2000)]
   \<and> scheduledBy
        (fst (retryRun exampleRetryProps (mountRetryImage (Url exampleUrl))
               [ImgError, TimerFired 1 ''1000'', ImgError, TimerFired 2 ''3000'']))
        (fst (retryRun exampleRetryProps (mountRetryImage (Url exampleUrl))
               [ImgError, TimerFired 1 ''1000'', ImgError, TimerFired 2 ''3000'', ImgError])) = []"
  by (simp add: retry_defs exampleRetryProps_def mountRetryImage_def exampleUrl_def scheduledBy_def)

text \<open>
  C3, amended.  With the default configuration (\<open>maxRetries = 3\<close>, \<open>retryDelay = 1000\<close>,
  exponential backoff on), failures 1 and 2 each schedule a retry timer, with delays 1000 and
  2000; the third failure schedules no timer; after it the exhausted flag is true (it is
  false before) and \<open>onRetriesExhausted\<close>, when supplied, has been invoked exactly once.
\<close>

theorem default_schedule:
  "let p = q\<lparr>retryConfig := noOptions\<rparr>;
       s0 = mountRetryImage requested;
       s1 = fst (retryStep p s0 ImgError);
       r1 = fst (retryStep p s1 (TimerFired 1 now1));
       s2 = fst (retryStep p r1 ImgError);
       r2 = fst (retryStep p s2 (TimerFired 2 now2));
       s3 = fst (retryStep p r2 ImgError)
   in scheduledBy s0 s1 = [1000] \<and> scheduledBy r1 s2 = [2000] \<and> scheduledBy r2 s3 = []
      \<and> \<not> hasExhaustedRetries s2 \<and> hasExhaustedRetries s3 \<and> attempts s3 = 3
      \<and> s3 = fst (retryRun p s0 [ImgError, TimerFired 1 now1, ImgError, TimerFired 2 now2, ImgError])
      \<and> count_list
            (snd (retryRun p s0 [ImgError, TimerFired 1 now1, ImgError, TimerFired 2 now2, ImgError]))
            CallOnRetriesExhausted
          = (if onRetriesExhausted q then 1 else 0)"
proof -
  define p where "p = q\<lparr>retryConfig := noOptions\<rparr>"
  define s0 where "s0 = mountRetryImage requested"
  define s1 where "s1 = fst (retryStep p s0 ImgError)"
  define r1 where "r1 = fst (retryStep p s1 (TimerFired 1 now1))"
  define s2 where "s2 = fst (retryStep p r1 ImgError)"
  define r2 where "r2 = fst (retryStep p s2 (TimerFired 2 now2))"
  define s3 where "s3 = fst (retryStep p r2 ImgError)"
  let ?u = "stringSrc requested"
  have s1: "s1 = \<lparr>attempts = 1, isRetrying = True, hasLoaded = False, hasExhaustedRetries = False,
      timeoutRef = Some 1, pending = [(1, 1000)], nextHandle = 2,
      retryCurrentSrc = ?u, originalSrc = ?u\<rparr>"
    unfolding s1_def s0_def p_def by (simp add: retry_defs mountRetryImage_def)
  have c1: "CallOnRetriesExhausted \<notin> set (snd (retryStep p s0 ImgError))"
    unfolding s0_def p_def by (simp add: retry_defs mountRetryImage_def)
  have r1: "r1 = \<lparr>attempts = 1, isRetrying = False, hasLoaded = False, hasExhaustedRetries = False,
      timeoutRef = Some 1, pending = [], nextHandle = 2,
      retryCurrentSrc = Some (retryUrl ?u now1), originalSrc = ?u\<rparr>"
    unfolding r1_def s1 by (simp add: retryStep_def retryTimerCallback_def clearTimeout_def)
  have c1': "snd (retryStep p s1 (TimerFired 1 now1)) = []"
    by (simp add: retryStep_def)
  have s2: "s2 = \<lparr>attempts = 2, isRetrying = True, hasLoaded = False, hasExhaustedRetries = False,
      timeoutRef = Some 2, pending = [(2, 2000)], nextHandle = 3,
      retryCurrentSrc = Some (retryUrl ?u now1), originalSrc = ?u\<rparr>"
    unfolding s2_def r1 p_def by (simp add: retry_defs)
  have c2: "CallOnRetriesExhausted \<notin> set (snd (retryStep p r1 ImgError))"
    unfolding r1 p_def by (simp add: retry_defs)
  have r2: "r2 = \<lparr>attempts = 2, isRetrying = False, hasLoaded = False, hasExhaustedRetries = False,
      timeoutRef = Some 2, pending = [], nextHandle = 3,
      retryCurrentSrc = Some (retryUrl ?u now2), originalSrc = ?u\<rparr>"
    unfolding r2_def s2 by (simp add: retryStep_def retryTimerCallback_def clearTimeout_def)
  have c2': "snd (retryStep p s2 (TimerFired 2 now2)) = []"
    by (simp add: retryStep_def)
  have s3: "attempts s3 = 3 \<and> hasExhaustedRetries s3 \<and> pending s3 = [] \<and> nextHandle s3 = 3"
    unfolding s3_def r2 p_def by (simp add: retry_defs Let_def split: option.splits)
  have c3: "count_list (snd (retryStep p r2 ImgError)) CallOnRetriesExhausted
      = (if onRetriesExhausted q then 1 else 0)"
    unfolding r2 p_def by (simp add: retry_defs Let_def)
  have run_state: "s3 = fst (retryRun p s0 [ImgError, TimerFired 1 now1, ImgError, TimerFired 2 now2, ImgError])"
    unfolding retryRun_Cons_state s3_def r2_def s2_def r1_def s1_def by simp
  have run_calls: "snd (retryRun p s0 [ImgError, TimerFired 1 now1, ImgError, TimerFired 2 now2, ImgError])
      = snd (retryStep p s0 ImgError) @ snd (retryStep p s1 (TimerFired 1 now1))
        @ snd (retryStep p r1 ImgError) @ snd (retryStep p s2 (TimerFired 2 now2))
        @ snd (retryStep p r2 ImgError)"
    unfolding retryRun_Cons_calls retryRun_Cons_state s3_def r2_def s2_def r1_def s1_def by simp
  have count: "count_list
        (snd (retryRun p s0 [ImgError, TimerFired 1 now1, ImgError, TimerFired 2 now2, ImgError]))
        CallOnRetriesExhausted = (if onRetriesExhausted q then 1 else 0)"
    unfolding run_calls using c1 c1' c2 c2' c3 by (simp add: count_list_0_iff)
  have sched: "scheduledBy s0 s1 = [1000] \<and> scheduledBy r1 s2 = [2000] \<and> scheduledBy r2 s3 = []"
    using s3 unfolding s1 r1 s2 r2 s0_def by (simp add: scheduledBy_def mountRetryImage_def)
  from sched s2 s3 run_state count
  have "scheduledBy s0 s1 = [1000] \<and> scheduledBy r1 s2 = [2000] \<and> scheduledBy r2 s3 = []
      \<and> \<not> hasExhaustedRetries s2 \<and> hasExhaustedRetries s3 \<and> attempts s3 = 3
      \<and> s3 = fst (retryRun p s0 [ImgError, TimerFired 1 now1, ImgError, TimerFired 2 now2, ImgError])
      \<and> count_list
            (snd (retryRun p s0 [ImgError, TimerFired 1 now1, ImgError, TimerFired 2 now2, ImgError]))
            CallOnRetriesExhausted
          = (if onRetriesExhausted q then 1 else 0)"
    by simp
  then show ?thesis
    unfolding Let_def s3_def r2_def s2_def r1_def s1_def s0_def p_def .
qed


theorem default_schedule_witness:
  "hasExhaustedRetries
     (fst (retryRun exampleRetryProps (mountRetryImage (Url exampleUrl))
            [ImgError, TimerFired 1 ''1000'', ImgError, TimerFired 2 ''3000'', ImgError]))
   \<and> count_list
        (snd (retryRun exampleRetryProps (mountRetryImage (Url exampleUrl))
               [ImgError, TimerFired 1 ''1000'', ImgError, TimerFired 2 ''3000'', ImgError]))
        CallOnRetriesExhausted = 1"
proof -
  have same: "exampleRetryProps\<lparr>retryConfig := noOptions\<rparr> = exampleRetryProps"
    by (simp add: exampleRetryProps_def)
  have supplied: "onRetriesExhausted exampleRetryProps"
    by (simp add: exampleRetryProps_def)
  from default_schedule [of exampleRetryProps "Url exampleUrl" "''1000''" "''3000''"]
  show ?thesis
    unfolding Let_def same using supplied by metis
qed

subsection \<open>Attempt counter and exhaustion\<close>

lemma retryHandleError_attempts:
  "attempts (fst (retryHandleError p s)) = attempts s + 1"
  by (simp add: retryHandleError_def setTimeout_def Let_def split: option.splits)

lemma retryHandleError_exhausted:
  "hasExhaustedRetries (fst (retryHandleError p s)) =
     (if jsLess (attempts s + 1) (maxRetries (mergeConfig (retryConfig p)))
      then hasExhaustedRetries s else True)"
  by (simp add: retryHandleError_def setTimeout_def Let_def split: option.splits)

lemma retryStep_attempts:
  "attempts (fst (retryStep p s ev)) =
     (case ev of ImgError \<Rightarrow> attempts s + 1
      | SrcChanged u \<Rightarrow> (if stringSrc u \<noteq> originalSrc s then 0 else attempts s)
      | _ \<Rightarrow> attempts s)"
  by (simp add: retryStep_def retryHandleError_attempts retryHandleLoad_def retryTimerCallback_def
      clearTimeout_def srcChanged_def Let_def split: retry_event.splits)

lemma retryStep_exhausted:
  "hasExhaustedRetries (fst (retryStep p s ev)) =
     (case ev of
        ImgError \<Rightarrow>
          (if jsLess (attempts s + 1) (maxRetries (mergeConfig (retryConfig p)))
           then hasExhaustedRetries s else True)
      | SrcChanged u \<Rightarrow> (if stringSrc u \<noteq> originalSrc s then False else hasExhaustedRetries s)
      | _ \<Rightarrow> hasExhaustedRetries s)"
  by (simp add: retryStep_def retryHandleError_exhausted retryHandleLoad_def retryTimerCallback_def
      clearTimeout_def srcChanged_def Let_def split: retry_event.splits)

lemma jsLess_Suc: "jsLess (a + 1) m \<Longrightarrow> jsLess a m"
  by (cases m) simp_all

lemma retryStep_invariant:
  assumes "0 \<le> attempts s"
    and "hasExhaustedRetries s \<longleftrightarrow>
           0 < attempts s \<and> \<not> jsLess (attempts s) (maxRetries (mergeConfig (retryConfig p)))"
  shows "0 \<le> attempts (fst (retryStep p s ev))
    \<and> (hasExhaustedRetries (fst (retryStep p s ev)) \<longleftrightarrow>
         0 < attempts (fst (retryStep p s ev))
         \<and> \<not> jsLess (attempts (fst (retryStep p s ev))) (maxRetries (mergeConfig (retryConfig p))))"
  using assms unfolding retryStep_attempts retryStep_exhausted
  by (cases ev) (auto dest: jsLess_Suc)

lemma retryRun_invariant:
  assumes "0 \<le> attempts s"
    and "hasExhaustedRetries s \<longleftrightarrow>
           0 < attempts s \<and> \<not> jsLess (attempts s) (maxRetries (mergeConfig (retryConfig p)))"
  shows "0 \<le> attempts (fst (retryRun p s evs))
    \<and> (hasExhaustedRetries (fst (retryRun p s evs)) \<longleftrightarrow>
         0 < attempts (fst (retryRun p s evs))
         \<and> \<not> jsLess (attempts (fst (retryRun p s evs))) (maxRetries (mergeConfig (retryConfig p))))"
  using assms
proof (induction evs arbitrary: s)
  case Nil
  then show ?case by simp
next
  case (Cons ev evs)
  from retryStep_invariant [OF Cons.prems, of ev]
  have "0 \<le> attempts (fst (retryRun p (fst (retryStep p s ev)) evs))
    \<and> (hasExhaustedRetries (fst (retryRun p (fst (retryStep p s ev)) evs)) \<longleftrightarrow>
         0 < attempts (fst (retryRun p (fst (retryStep p s ev)) evs))
         \<and> \<not> jsLess (attempts (fst (retryRun p (fst (retryStep p s ev)) evs)))
                     (maxRetries (mergeConfig (retryConfig p))))"
    by (intro Cons.IH) simp_all
  then show ?case
    unfolding retryRun_Cons_state .
qed

lemma retryRun_monotone:
  "\<forall>ev \<in> set evs. \<not> isSrcChanged ev \<Longrightarrow>
     attempts s \<le> attempts (fst (retryRun p s evs))
     \<and> (hasExhaustedRetries s \<longrightarrow> hasExhaustedRetries (fst (retryRun p s evs)))"
proof (induction evs arbitrary: s)
  case Nil
  show ?case by simp
next
  case (Cons ev evs)
  from Cons.prems have ev: "\<not> isSrcChanged ev" and rest: "\<forall>e \<in> set evs. \<not> isSrcChanged e"
    by simp_all
  have step: "attempts s \<le> attempts (fst (retryStep p s ev))
      \<and> (hasExhaustedRetries s \<longrightarrow> hasExhaustedRetries (fst (retryStep p s ev)))"
    using ev unfolding retryStep_attempts retryStep_exhausted by (cases ev) auto
  from Cons.IH [OF rest, of "fst (retryStep p s ev)"] step show ?case
    unfolding retryRun_Cons_state by auto
qed

lemma retryRun_append_state:
  "fst (retryRun p s (xs @ ys)) = fst (retryRun p (fst (retryRun p s xs)) ys)"
proof (induction xs arbitrary: s)
  case Nil
  show ?case by simp
next
  case (Cons ev xs)
  show ?case
    unfolding append_Cons retryRun_Cons_state by (rule Cons.IH)
qed

text \<open>The hook.\<close>

lemma retry_attempts:
  "attempts (snd (retry c s)) =
     (if jsGreaterEq (attempts s + 1) (maxRetries (mergeConfig c)) then attempts s else attempts s + 1)"
  by (simp add: retry_def setTimeout_def Let_def)

lemma retry_exhausted:
  "hasExhaustedRetries (snd (retry c s)) =
     (if jsGreaterEq (attempts s + 1) (maxRetries (mergeConfig c)) then True else hasExhaustedRetries s)"
  by (simp add: retry_def setTimeout_def Let_def)

lemma hookStep_attempts:
  "attempts (hookStep c s ev) =
     (case ev of
        HookError err \<Rightarrow>
          (if jsGreaterEq (attempts s + 1) (maxRetries (mergeConfig c)) then attempts s
           else attempts s + 1)
      | HookRetry \<Rightarrow>
          (if jsGreaterEq (attempts s + 1) (maxRetries (mergeConfig c)) then attempts s
           else attempts s + 1)
      | HookReset \<Rightarrow> 0
      | _ \<Rightarrow> attempts s)"
  by (simp add: hookStep_def hookHandleError_def retry_attempts hookHandleLoad_def
      hookTimerCallback_def clearTimeout_def reset_def split: hook_event.splits)

lemma hookStep_exhausted:
  "hasExhaustedRetries (hookStep c s ev) =
     (case ev of
        HookError err \<Rightarrow>
          (if jsGreaterEq (attempts s + 1) (maxRetries (mergeConfig c)) then True
           else hasExhaustedRetries s)
      | HookRetry \<Rightarrow>
          (if jsGreaterEq (attempts s + 1) (maxRetries (mergeConfig c)) then True
           else hasExhaustedRetries s)
      | HookReset \<Rightarrow> False
      | _ \<Rightarrow> hasExhaustedRetries s)"
  by (simp add: hookStep_def hookHandleError_def retry_exhausted hookHandleLoad_def
      hookTimerCallback_def clearTimeout_def reset_def split: hook_event.splits)

lemma hookRun_monotone:
  "HookReset \<notin> set evs \<Longrightarrow>
     attempts s \<le> attempts (hookRun c s evs)
     \<and> (hasExhaustedRetries s \<longrightarrow> hasExhaustedRetries (hookRun c s evs))"
proof (induction evs arbitrary: s)
  case Nil
  show ?case by simp
next
  case (Cons ev evs)
  from Cons.prems have ev: "ev \<noteq> HookReset" and rest: "HookReset \<notin> set evs"
    by auto
  have step: "attempts s \<le> attempts (hookStep c s ev)
      \<and> (hasExhaustedRetries s \<longrightarrow> hasExhaustedRetries (hookStep c s ev))"
    using ev unfolding hookStep_attempts hookStep_exhausted by (cases ev) auto
  from Cons.IH [OF rest, of "hookStep c s ev"] step show ?case
    by auto
qed

lemma hookRun_append:
  "hookRun c s (xs @ ys) = hookRun c (hookRun c s xs) ys"
  by (induction xs arbitrary: s) simp_all

lemmas hook_defs = hookStep_def hookHandleError_def hookHandleLoad_def hookTimerCallback_def
  reset_def retry_def setTimeout_def clearTimeout_def mergeConfig_def DEFAULT_RETRY_CONFIG_def
  noOptions_def calculateDelayOf_def calculateDelay_def

text \<open>
  C5, as stated, fails in four places.  In the component the flag is only ever set by a
  failure: mounted with \<open>maxRetries: 0\<close> the counter 0 already reaches \<open>maxRetries\<close> and the
  flag is false.  With \<open>maxRetries: undefined\<close> the test \<open>newAttempts < maxRetries\<close> is false
  at the first failure, which sets the flag at counter 1, while \<open>1 >= undefined\<close> is false
  too.  After three failures under the defaults the flag is true at counter 3; rendered
  again with \<open>maxRetries: 10\<close> it is still true, below the new \<open>maxRetries\<close>.  In the hook,
  \<open>retry\<close> returns on exhaustion before \<open>setAttempts\<close>: after three failures under the
  defaults the flag is true while the counter is 2, below \<open>maxRetries = 3\<close>.
\<close>

theorem attempts_and_exhaustion_counterexample:
  "\<not> hasExhaustedRetries (mountRetryImage (Url exampleUrl))
   \<and> attempts (mountRetryImage (Url exampleUrl)) = 0
   \<and> maxRetries (mergeConfig (noOptions\<lparr>optMaxRetries := Given 0\<rparr>)) = Some 0
   \<and> hasExhaustedRetries
        (fst (retryRun (exampleRetryProps\<lparr>retryConfig := noOptions\<lparr>optMaxRetries := Undefined\<rparr>\<rparr>)
               (mountRetryImage (Url exampleUrl)) [ImgError]))
   \<and> attempts
        (fst (retryRun (exampleRetryProps\<lparr>retryConfig := noOptions\<lparr>optMaxRetries := Undefined\<rparr>\<rparr>)
               (mountRetryImage (Url exampleUrl)) [ImgError])) = 1
   \<and> maxRetries (mergeConfig (noOptions\<lparr>optMaxRetries := Undefined\<rparr>)) = None
   \<and> \<not> jsGreaterEq 1 None
   \<and> hasExhaustedRetries
        (fst (retryStep (exampleRetryProps\<lparr>retryConfig := noOptions\<lparr>optMaxRetries := Given 10\<rparr>\<rparr>)
               (fst (retryRun exampleRetryProps (mountRetryImage (Url exampleUrl))
                      [ImgError, TimerFired 1 ''1000'', ImgError, TimerFired 2 ''3000'', ImgError]))
               ImgLoad))
   \<and> attempts
        (fst (retryStep (exampleRetryProps\<lparr>retryConfig := noOptions\<lparr>optMaxRetries := Given 10\<rparr>\<rparr>)
               (fst (retryRun exampleRetryProps (mountRetryImage (Url exampleUrl))
                      [ImgError, TimerFired 1 ''1000'', ImgError, TimerFired 2 ''3000'', ImgError]))
               ImgLoad)) = 3
   \<and> maxRetries (mergeConfig (noOptions\<lparr>optMaxRetries := Given 10\<rparr>)) = Some 10
   \<and> hasExhaustedRetries
        (hookRun noOptions (mountHook exampleUrl)
          [HookError None, HookTimerFired 1 ''1000'', HookError None, HookTimerFired 2 ''3000'',
           HookError None])
   \<and> attempts
        (hookRun noOptions (mountHook exampleUrl)
          [HookError None, HookTimerFired 1 ''1000'', HookError None, HookTimerFired 2 ''3000'',
           HookError None]) = 2
   \<and> maxRetries (mergeConfig noOptions) = Some 3"
  by (simp add: retry_defs hook_defs mountHook_def mountRetryImage_def exampleUrl_def
      exampleRetryProps_def Let_def)

text \<open>
  C5, amended.  With the retry configuration unchanged, in every reachable state and for
  every continuation within the same source-lifetime (no source change in the component, no
  \<open>reset\<close> in the hook), the attempt counter does not decrease and the exhausted flag, once
  true, stays true.  In the component the flag is true exactly when at least one failure was
  counted and the counter is not below \<open>maxRetries\<close> (the test \<open>newAttempts < maxRetries\<close>
  of the code, false for an undefined \<open>maxRetries\<close>); for a numeric \<open>maxRetries \<ge> 1\<close> that
  is exactly when the counter is at least \<open>maxRetries\<close>.
\<close>

theorem attempts_and_exhaustion:
  assumes "\<forall>ev \<in> set ys. \<not> isSrcChanged ev"
    and "HookReset \<notin> set hys"
  shows "(let s = fst (retryRun p (mountRetryImage requested) xs);
              s' = fst (retryRun p (mountRetryImage requested) (xs @ ys));
              m = maxRetries (mergeConfig (retryConfig p))
          in attempts s \<le> attempts s'
             \<and> (hasExhaustedRetries s \<longrightarrow> hasExhaustedRetries s')
             \<and> (hasExhaustedRetries s \<longleftrightarrow> 0 < attempts s \<and> \<not> jsLess (attempts s) m)
             \<and> (\<forall>n. m = Some n \<and> 1 \<le> n \<longrightarrow> (hasExhaustedRetries s \<longleftrightarrow> n \<le> attempts s)))
       \<and> (let h = hookRun c (mountHook initialSrc) hxs;
               h' = hookRun c (mountHook initialSrc) (hxs @ hys)
           in attempts h \<le> attempts h'
              \<and> (hasExhaustedRetries h \<longrightarrow> hasExhaustedRetries h'))"
proof -
  define s where "s = fst (retryRun p (mountRetryImage requested) xs)"
  define m where "m = maxRetries (mergeConfig (retryConfig p))"
  define h where "h = hookRun c (mountHook initialSrc) hxs"
  have inv: "0 \<le> attempts s \<and> (hasExhaustedRetries s \<longleftrightarrow> 0 < attempts s \<and> \<not> jsLess (attempts s) m)"
    unfolding s_def m_def by (rule retryRun_invariant) (simp_all add: mountRetryImage_def)
  then have iff: "\<forall>n. m = Some n \<and> 1 \<le> n \<longrightarrow> (hasExhaustedRetries s \<longleftrightarrow> n \<le> attempts s)"
    by auto
  have mono: "attempts s \<le> attempts (fst (retryRun p s ys))
      \<and> (hasExhaustedRetries s \<longrightarrow> hasExhaustedRetries (fst (retryRun p s ys)))"
    using assms(1) by (rule retryRun_monotone)
  have component: "attempts s \<le> attempts (fst (retryRun p (mountRetryImage requested) (xs @ ys)))
      \<and> (hasExhaustedRetries s \<longrightarrow>
            hasExhaustedRetries (fst (retryRun p (mountRetryImage requested) (xs @ ys))))"
    using mono unfolding retryRun_append_state s_def .
  have hmono: "attempts h \<le> attempts (hookRun c h hys)
      \<and> (hasExhaustedRetries h \<longrightarrow> hasExhaustedRetries (hookRun c h hys))"
    using assms(2) by (rule hookRun_monotone)
  have hook: "attempts h \<le> attempts (hookRun c (mountHook initialSrc) (hxs @ hys))
      \<and> (hasExhaustedRetries h \<longrightarrow> hasExhaustedRetries (hookRun c (mountHook initialSrc) (hxs @ hys)))"
    using hmono unfolding hookRun_append h_def .
  from inv iff component hook show ?thesis
    unfolding Let_def s_def m_def h_def by blast
qed

theorem attempts_and_exhaustion_witness:
  "attempts (fst (retryRun exampleRetryProps (mountRetryImage (Url exampleUrl)) [ImgError, ImgError]))
     \<le> attempts (fst (retryRun exampleRetryProps (mountRetryImage (Url exampleUrl))
                       ([ImgError, ImgError] @ [ImgLoad, ImgError])))
   \<and> (hasExhaustedRetries
         (fst (retryRun exampleRetryProps (mountRetryImage (Url exampleUrl)) [ImgError, ImgError]))
       \<longleftrightarrow> 3 \<le> attempts
         (fst (retryRun exampleRetryProps (mountRetryImage (Url exampleUrl)) [ImgError, ImgError])))
   \<and> attempts (hookRun noOptions (mountHook exampleUrl) [HookError None, HookError None])
     \<le> attempts (hookRun noOptions (mountHook exampleUrl)
                   ([HookError None, HookError None] @ [HookLoad, HookError None]))"
proof -
  have lifetime: "\<forall>ev \<in> set [ImgLoad, ImgError]. \<not> isSrcChanged ev"
    by simp
  have noreset: "HookReset \<notin> set [HookLoad, HookError None]"
    by simp
  have numeric: "maxRetries (mergeConfig (retryConfig exampleRetryProps)) = Some 3 \<and> (1::int) \<le> 3"
    by (simp add: exampleRetryProps_def mergeConfig_def noOptions_def DEFAULT_RETRY_CONFIG_def)
  from attempts_and_exhaustion [OF lifetime noreset, of exampleRetryProps "Url exampleUrl"
      "[ImgError, ImgError]" noOptions exampleUrl "[HookError None, HookError None]"] numeric
  show ?thesis
    unfolding Let_def by blast
qed

subsection \<open>Timers across a reset\<close>

text \<open>The only place that clears a timer is the unmount cleanup, and it clears the last one.\<close>

lemma unmountCleanup_clears:
  "timeoutRef s = Some h \<Longrightarrow> h \<notin> fst ` set (pending (unmountCleanup s))"
  by (auto simp: unmountCleanup_def clearTimeout_def)

text \<open>What \<open>reset\<close> restores, and what it leaves alone.\<close>

lemma reset_restores:
  "attempts (reset s) = 0 \<and> \<not> hasExhaustedRetries (reset s) \<and> \<not> isRetrying (reset s)
   \<and> \<not> hasLoaded (reset s) \<and> error (reset s) = None \<and> hookSrc (reset s) = hookOriginalSrc s"
  by (simp add: reset_def)

lemma reset_keeps_timers:
  "pending (reset s) = pending s \<and> timeoutRef (reset s) = timeoutRef s"
  by (simp add: reset_def)

lemma srcChanged_keeps_timers:
  "pending (srcChanged u s) = pending s \<and> timeoutRef (srcChanged u s) = timeoutRef s"
  by (simp add: srcChanged_def Let_def)

text \<open>
  C6.  \<open>reset\<close> restores the counter, the flag and the source, but it does not clear the
  pending timer: after one failure and a reset the timer of that failure is still pending, and
  when it fires it replaces the restored source by a retry URL.
\<close>

theorem reset_leaves_timer:
  "hookRun noOptions (mountHook exampleUrl) [HookError None, HookReset] =
     \<lparr>attempts = 0, isRetrying = False, hasLoaded = False, hasExhaustedRetries = False,
      timeoutRef = Some 1, pending = [(1, 1000)], nextHandle = 2,
      hookSrc = ''https://example.com/image.jpg'', error = None,
      hookOriginalSrc = ''https://example.com/image.jpg''\<rparr>
   \<and> hookRun noOptions (mountHook exampleUrl)
        [HookError None, HookReset, HookTimerFired 1 ''1700000000000''] =
     \<lparr>attempts = 0, isRetrying = False, hasLoaded = False, hasExhaustedRetries = False,
      timeoutRef = Some 1, pending = [], nextHandle = 2,
      hookSrc = ''https://example.com/image.jpg?_retry=1700000000000'', error = None,
      hookOriginalSrc = ''https://example.com/image.jpg''\<rparr>"
  by (simp add: hook_defs retryUrl_def mountHook_def exampleUrl_def)

text \<open>
  C7.  The effect on a changed \<open>src\<close> resets the state cells without clearing the pending
  timer.  After a failure and a source change the old timer is still pending; when it fires
  it overwrites the new source of the reset instance with a retry URL; and a failure of the
  new source before that schedules a second timer beside it.
\<close>

theorem src_change_leaves_timer:
  "fst (retryRun exampleRetryProps (mountRetryImage (Url ''https://example.com/image1.jpg''))
         [ImgError, SrcChanged (Url ''https://example.com/image2.jpg'')]) =
     \<lparr>attempts = 0, isRetrying = False, hasLoaded = False, hasExhaustedRetries = False,
      timeoutRef = Some 1, pending = [(1, 1000)], nextHandle = 2,
      retryCurrentSrc = Some ''https://example.com/image2.jpg'',
      originalSrc = Some ''https://example.com/image2.jpg''\<rparr>
   \<and> fst (retryRun exampleRetryProps (mountRetryImage (Url ''https://example.com/image1.jpg''))
         [ImgError, SrcChanged (Url ''https://example.com/image2.jpg''),
          TimerFired 1 ''1700000000000'']) =
     \<lparr>attempts = 0, isRetrying = False, hasLoaded = False, hasExhaustedRetries = False,
      timeoutRef = Some 1, pending = [], nextHandle = 2,
      retryCurrentSrc = Some ''https://example.com/image2.jpg?_retry=1700000000000'',
      originalSrc = Some ''https://example.com/image2.jpg''\<rparr>
   \<and> pending
       (fst (retryRun exampleRetryProps (mountRetryImage (Url ''https://example.com/image1.jpg''))
              [ImgError, SrcChanged (Url ''https://example.com/image2.jpg''), ImgError]))
     = [(1, 1000), (2, 1000)]"
  by (simp add: retry_defs retryUrl_def exampleRetryProps_def mountRetryImage_def Let_def)

end
